theory Spec2Isabelle
  imports Complex_Main "HOL-Library.Word" "HOL-Library.Char_ord" "HOL-Library.List_Lexorder"
begin

unbundle bit_operations_syntax

section \<open>JavaScript values and errors\<close>

text \<open>
  Every \<open>throw\<close> of the source, and every exception the language raises on its behalf,
  is a value of \<open>js_error\<close>; a function that can throw returns \<open>js_error + 'a\<close>.
  \<open>Error msg\<close> is \<open>new Error(msg)\<close>; \<open>LibError\<close> is an exception raised inside an
  external library (jose, pako, node:crypto, axios).
\<close>

datatype js_error = TypeError | RangeError | SyntaxError | Error string | LibError string

section \<open>RevocationList (revocation.ts)\<close>

text \<open>
  \<open>bitArray\<close> is a \<open>BigUint64Array\<close>: a sequence of unsigned 64-bit words. The constructor
  allocates \<open>SIZE\<close> words, \<open>parse\<close> whatever the decoded buffer holds, so the length is
  part of the state. A \<open>BigInt\<close> is an \<open>int\<close>; an index is an integer-valued \<open>number\<close>,
  also an \<open>int\<close>.
\<close>

record RevocationList =
  bitArray :: "64 word list"

definition SIZE :: int where
  "SIZE = 2000"

definition SIZE_PER_INDEX :: int where
  "SIZE_PER_INDEX = 64"

definition new_RevocationList :: RevocationList where
  "new_RevocationList = \<lparr>bitArray = replicate (nat SIZE) 0\<rparr>"

text \<open>Reading a typed array outside its bounds yields \<open>undefined\<close> (\<open>None\<close>).\<close>

definition typed_get :: "64 word list \<Rightarrow> int \<Rightarrow> int option" where
  "typed_get xs i = (if 0 \<le> i \<and> i < int (length xs) then Some (uint (xs ! nat i)) else None)"

text \<open>Writing converts the BigInt modulo \<open>2 ^ 64\<close>; a write outside the bounds is dropped.\<close>

definition typed_set :: "64 word list \<Rightarrow> int \<Rightarrow> int \<Rightarrow> 64 word list" where
  "typed_set xs i v = (if 0 \<le> i \<and> i < int (length xs) then xs[nat i := word_of_int v] else xs)"

text \<open>The \<open>%\<close> of JavaScript numbers truncates: the result has the sign of the dividend.\<close>

definition js_rem :: "int \<Rightarrow> int \<Rightarrow> int" where
  "js_rem a b = sgn a * (\<bar>a\<bar> mod \<bar>b\<bar>)"

text \<open>\<open>x << n\<close> on BigInts; a negative count shifts right.\<close>

definition bigint_shl :: "int \<Rightarrow> int \<Rightarrow> int" where
  "bigint_shl x n = (if 0 \<le> n then push_bit (nat n) x else drop_bit (nat (- n)) x)"

text \<open>
  \<open>a & b\<close> and \<open>a | b\<close> with a BigInt on the right: an \<open>undefined\<close> left operand converts
  to a Number, and mixing Number and BigInt throws a TypeError.
\<close>

definition bigint_and :: "int option \<Rightarrow> int \<Rightarrow> js_error + int" where
  "bigint_and a m = (case a of None \<Rightarrow> Inl TypeError | Some x \<Rightarrow> Inr (x AND m))"

definition bigint_or :: "int option \<Rightarrow> int \<Rightarrow> js_error + int" where
  "bigint_or a m = (case a of None \<Rightarrow> Inl TypeError | Some x \<Rightarrow> Inr (x OR m))"

record bit_array_values =
  arrayValue :: "int option"
  mask :: int
  arrayIndex :: int

definition getBitArrayValues :: "RevocationList \<Rightarrow> int \<Rightarrow> bit_array_values" where
  "getBitArrayValues L index =
     (let arrayIndex = SIZE - 1 - index div SIZE_PER_INDEX;
          arrayValue = typed_get (bitArray L) arrayIndex;
          bitIndex = js_rem index SIZE_PER_INDEX;
          mask = bigint_shl 1 bitIndex
      in \<lparr>arrayValue = arrayValue, mask = mask, arrayIndex = arrayIndex\<rparr>)"

definition getCredentialStatus :: "RevocationList \<Rightarrow> int \<Rightarrow> js_error + bool" where
  "getCredentialStatus L index =
     (let bitArrayValues = getBitArrayValues L index
      in case bigint_and (arrayValue bitArrayValues) (mask bitArrayValues) of
           Inl e \<Rightarrow> Inl e
         | Inr r \<Rightarrow> Inr (r = mask bitArrayValues))"

definition index_out_of_range :: js_error where
  "index_out_of_range = Error ''[Revocation error] - index out of range''"

definition revokeCredential :: "RevocationList \<Rightarrow> int \<Rightarrow> js_error + RevocationList" where
  "revokeCredential L index =
     (if index > SIZE * SIZE_PER_INDEX then Inl index_out_of_range
      else if index < 0 then Inl index_out_of_range
      else
        let bitArrayValues = getBitArrayValues L index
        in case bigint_or (arrayValue bitArrayValues) (mask bitArrayValues) of
             Inl e \<Rightarrow> Inl e
           | Inr newArrayValue \<Rightarrow>
               Inr (L\<lparr>bitArray := typed_set (bitArray L) (arrayIndex bitArrayValues) newArrayValue\<rparr>))"


section \<open>Values handled by the selective-disclosure code\<close>

text \<open>
  Claim values and parsed JSON are dynamically typed. A \<open>number\<close> is a double: its finite
  values are written \<open>Finite m k\<close> for \<open>m / 10 ^ k\<close> (every finite double is such a decimal
  fraction), in lowest terms when \<open>k = 0\<close> or 10 does not divide \<open>m\<close>. A string is a list
  of code units, each a \<open>char\<close> (code units below 256); an object is the list of its own
  enumerable properties in enumeration order.
\<close>

datatype number = Finite int nat | NaN | PosInfinity | NegInfinity

fun lowest_terms :: "int \<Rightarrow> nat \<Rightarrow> bool" where
  "lowest_terms m 0 = True"
| "lowest_terms m (Suc k) = (0 < m mod 10)"

datatype jsval =
    JUndefined
  | JNull
  | JBool bool
  | JNum number
  | JStr string
  | JArr "jsval list"
  | JObj "(string \<times> jsval) list"

type_synonym byte = "8 word"
type_synonym bytes = "byte list"

fun typeof :: "jsval \<Rightarrow> string" where
  "typeof JUndefined = ''undefined''"
| "typeof JNull = ''object''"
| "typeof (JBool b) = ''boolean''"
| "typeof (JNum n) = ''number''"
| "typeof (JStr s) = ''string''"
| "typeof (JArr xs) = ''object''"
| "typeof (JObj kvs) = ''object''"

text \<open>
  A JSON primitive, in the words of the data model: string, number, boolean or null. The
  numbers of JSON are the finite ones; \<open>NaN\<close> and the infinities are numbers of JavaScript
  (their \<open>typeof\<close> is \<open>number\<close>) that JSON cannot write.
\<close>

fun json_primitive :: "jsval \<Rightarrow> bool" where
  "json_primitive JNull = True"
| "json_primitive (JBool b) = True"
| "json_primitive (JNum (Finite m k)) = lowest_terms m k"
| "json_primitive (JStr s) = True"
| "json_primitive v = False"

subsection \<open>The platform\<close>

text \<open>
  The functions of the runtime and of the libraries (jose, node:crypto, pako, axios) that the
  source calls are parameters of the model, one field for each:
  \<^item> \<open>base64url_encode\<close>, \<open>base64url_decode\<close>: \<open>jose.base64url\<close> on bytes; on malformed
    input \<open>decode\<close> throws in the browser build of jose and skips what it cannot read in
    the Node build;
  \<^item> \<open>utf8_encode\<close>: the \<open>TextEncoder\<close> that \<open>jose.base64url.encode\<close> applies to a string
    argument; \<open>utf8_decode\<close>: \<open>Buffer.from(bytes).toString()\<close>;
  \<^item> \<open>JSON_stringify\<close>, \<open>JSON_parse\<close>;
  \<^item> \<open>ToNumber\<close>: the conversion that \<open>==\<close> applies to a string or an object compared
    with a number;
  \<^item> \<open>toLowerCase\<close>: \<open>String.prototype.toLowerCase\<close>;
  \<^item> \<open>createHash\<close>: \<open>crypto.createHash(name)\<close>, an error for an unsupported name, else the
    function \<open>s \<mapsto> hash.update(s).digest()\<close>;
  \<^item> \<open>gzip\<close>, \<open>ungzip\<close>: pako;
  \<^item> \<open>btoa\<close>; \<open>Buffer_from_base64\<close>: \<open>Buffer.from(s, "base64")\<close>;
  \<^item> \<open>parseInt\<close>: \<open>None\<close> is \<open>NaN\<close>;
  \<^item> \<open>axios_get\<close>: the \<open>GET\<close> of a status list, returning the fields of
    \<open>response.data.credentialSubject\<close> that the caller reads (a failed request, or a reply
    without them, is the error); \<open>axios_post\<close>: the \<open>POST\<close> of a document;
  \<^item> \<open>DEFAULT_CONTEXT\<close>, \<open>VERIFIABLE_CREDENTIAL\<close>: constants of the SDK;
    \<open>now_iso\<close>: \<open>toISOString()\<close> of the current time cut to whole seconds.
\<close>

record status_list_subject =
  subject_id :: jsval
  subject_type :: jsval
  subject_purpose :: jsval
  encodedList :: string

record platform =
  base64url_encode :: "bytes \<Rightarrow> string"
  base64url_decode :: "string \<Rightarrow> js_error + bytes"
  utf8_encode :: "string \<Rightarrow> bytes"
  utf8_decode :: "bytes \<Rightarrow> string"
  JSON_stringify :: "jsval \<Rightarrow> string"
  JSON_parse :: "string \<Rightarrow> js_error + jsval"
  ToNumber :: "jsval \<Rightarrow> number"
  toLowerCase :: "string \<Rightarrow> string"
  createHash :: "string \<Rightarrow> js_error + (string \<Rightarrow> bytes)"
  gzip :: "bytes \<Rightarrow> bytes"
  ungzip :: "bytes \<Rightarrow> js_error + bytes"
  btoa :: "string \<Rightarrow> string"
  Buffer_from_base64 :: "string \<Rightarrow> bytes"
  parseInt :: "string \<Rightarrow> int option"
  axios_get :: "string \<Rightarrow> js_error + status_list_subject"
  axios_post :: "string \<Rightarrow> jsval \<Rightarrow> js_error + unit"
  DEFAULT_CONTEXT :: string
  VERIFIABLE_CREDENTIAL :: string
  now_iso :: string

subsection \<open>Language operations on strings, arrays and objects\<close>

text \<open>\<open>s.split(sep)\<close> for a one-character separator: never empty.\<close>

fun js_split :: "char \<Rightarrow> string \<Rightarrow> string list" where
  "js_split sep [] = [[]]"
| "js_split sep (c # cs) =
     (if c = sep then [] # js_split sep cs
      else (case js_split sep cs of [] \<Rightarrow> [[c]] | p # ps \<Rightarrow> (c # p) # ps))"

text \<open>\<open>xs.join(sep)\<close>.\<close>

fun js_join :: "string \<Rightarrow> string list \<Rightarrow> string" where
  "js_join sep [] = []"
| "js_join sep [x] = x"
| "js_join sep (x # y # ys) = x @ sep @ js_join sep (y # ys)"

text \<open>\<open>s.replace(c, '')\<close> with a string pattern removes the first occurrence only.\<close>

fun remove_first :: "char \<Rightarrow> string \<Rightarrow> string" where
  "remove_first c [] = []"
| "remove_first c (x # xs) = (if x = c then xs else x # remove_first c xs)"

text \<open>Decimal digits: the characters \<open>0\<close> to \<open>9\<close>, and the value of a sequence of them.\<close>

definition is_digit :: "char \<Rightarrow> bool" where
  "is_digit c = (48 \<le> (of_char c :: nat) \<and> (of_char c :: nat) \<le> 57)"

definition digit_val :: "char \<Rightarrow> nat" where
  "digit_val c = of_char c - 48"

fun digit_char :: "nat \<Rightarrow> char" where
  "digit_char n = char_of (48 + n)"

definition digits_value :: "string \<Rightarrow> int" where
  "digits_value s = foldl (\<lambda>acc c. 10 * acc + int (digit_val c)) 0 s"

text \<open>\<open>v.length\<close>: a TypeError on \<open>null\<close> and \<open>undefined\<close>, \<open>undefined\<close> where there is none.\<close>

fun js_length :: "jsval \<Rightarrow> js_error + jsval" where
  "js_length JUndefined = Inl TypeError"
| "js_length JNull = Inl TypeError"
| "js_length (JArr xs) = Inr (JNum (Finite (int (length xs)) 0))"
| "js_length (JStr s) = Inr (JNum (Finite (int (length s)) 0))"
| "js_length (JObj kvs) = Inr (case map_of kvs ''length'' of None \<Rightarrow> JUndefined | Some v \<Rightarrow> v)"
| "js_length v = Inr JUndefined"

text \<open>\<open>v[i]\<close> for a literal index \<open>i\<close> below 10; the key of an object is the digit.\<close>

fun js_index :: "jsval \<Rightarrow> nat \<Rightarrow> js_error + jsval" where
  "js_index JUndefined i = Inl TypeError"
| "js_index JNull i = Inl TypeError"
| "js_index (JArr xs) i = Inr (if i < length xs then xs ! i else JUndefined)"
| "js_index (JStr s) i = Inr (if i < length s then JStr [s ! i] else JUndefined)"
| "js_index (JObj kvs) i =
     Inr (case map_of kvs [digit_char i] of None \<Rightarrow> JUndefined | Some v \<Rightarrow> v)"
| "js_index v i = Inr JUndefined"

text \<open>
  \<open>v == n\<close> for a number \<open>n\<close> that is not \<open>NaN\<close>: \<open>null\<close> and \<open>undefined\<close> equal no
  number, a boolean is compared as 0 or 1, a string or an object through \<open>ToNumber\<close>.
\<close>

fun loose_eq_number :: "platform \<Rightarrow> jsval \<Rightarrow> number \<Rightarrow> bool" where
  "loose_eq_number P JUndefined n = False"
| "loose_eq_number P JNull n = False"
| "loose_eq_number P (JNum x) n = (x = n)"
| "loose_eq_number P (JBool b) n = (Finite (if b then 1 else 0) 0 = n)"
| "loose_eq_number P v n = (ToNumber P v = n)"

text \<open>\<open>claims.includes(v)\<close> on an array of strings.\<close>

fun array_includes :: "string list \<Rightarrow> jsval \<Rightarrow> bool" where
  "array_includes claims (JStr s) = (s \<in> set claims)"
| "array_includes claims v = False"

text \<open>
  The objects modelled are extensible and their properties are configurable, writable data
  properties, as \<open>JSON.parse\<close> and object literals build them. (On a property that is not
  configurable, as \<open>_sd\<close> is once \<open>createDisclosures\<close> has defined it on the same object,
  \<open>delete\<close> and \<open>Object.defineProperty\<close> throw a TypeError; such objects are not values of
  this model.)

  The properties of an object are enumerated with the array indices first, in ascending
  order, then the other keys in the order of their creation. An array index is the
  canonical decimal string of a number below \<open>2 ^ 32 - 1\<close>.
\<close>

definition array_index :: "string \<Rightarrow> int option" where
  "array_index s =
     (case s of
        [] \<Rightarrow> None
      | c # cs \<Rightarrow>
          if list_all is_digit s \<and> (cs = [] \<or> 0 < digit_val c) \<and> digits_value s < 4294967295
          then Some (digits_value s)
          else None)"

fun insert_index :: "int \<Rightarrow> string \<times> jsval \<Rightarrow> (string \<times> jsval) list \<Rightarrow> (string \<times> jsval) list" where
  "insert_index n kv [] = [kv]"
| "insert_index n kv (p # ps) =
     (case array_index (fst p) of
        None \<Rightarrow> kv # p # ps
      | Some m \<Rightarrow> if m < n then p # insert_index n kv ps else kv # p # ps)"

text \<open>The creation of a property with a new key.\<close>

definition add_property :: "(string \<times> jsval) list \<Rightarrow> string \<Rightarrow> jsval \<Rightarrow> (string \<times> jsval) list" where
  "add_property obj key v =
     (case array_index key of
        None \<Rightarrow> obj @ [(key, v)]
      | Some n \<Rightarrow> insert_index n (key, v) obj)"

text \<open>\<open>delete obj[key]\<close> and \<open>Object.defineProperty(obj, key, {value, enumerable: true})\<close>:
  the value of a key already there is replaced in place, a new key is created.\<close>

definition delete_key :: "string \<Rightarrow> (string \<times> jsval) list \<Rightarrow> (string \<times> jsval) list" where
  "delete_key key obj = filter (\<lambda>kv. fst kv \<noteq> key) obj"

definition defineProperty :: "(string \<times> jsval) list \<Rightarrow> string \<Rightarrow> jsval \<Rightarrow> (string \<times> jsval) list" where
  "defineProperty obj key v =
     (if key \<in> fst ` set obj then map (\<lambda>kv. if fst kv = key then (key, v) else kv) obj
      else add_property obj key v)"

section \<open>Selective disclosure (selective-disclosure.ts)\<close>

definition SALT_BYTE_SIZE :: nat where
  "SALT_BYTE_SIZE = 128 div 8"

record vc_claims =
  credentialSubject :: "(string \<times> jsval) list"

record JwtCredentialPayload =
  vc :: vc_claims

definition removeKeysFromObject :: "(string \<times> jsval) list \<Rightarrow> string list \<Rightarrow> (string \<times> jsval) list" where
  "removeKeysFromObject obj keysToRemove = fold delete_key keysToRemove obj"

definition encodeDisclosure :: "platform \<Rightarrow> jsval list \<Rightarrow> string" where
  "encodeDisclosure P disclosureArray =
     base64url_encode P (utf8_encode P (JSON_stringify P (JArr disclosureArray)))"

definition ianaToCryptoAlg :: "platform \<Rightarrow> string \<Rightarrow> string" where
  "ianaToCryptoAlg P hashAlg =
     (if hashAlg = ''ES256K'' then ''sha256''
      else if hashAlg = ''EdDSA'' then ''sha512''
      else toLowerCase P (remove_first CHR ''-'' hashAlg))"

definition hashDisclosure :: "platform \<Rightarrow> string \<Rightarrow> string \<Rightarrow> js_error + string" where
  "hashDisclosure P alg disclosure =
     (case createHash P (ianaToCryptoAlg P alg) of
        Inl e \<Rightarrow> Inl e
      | Inr hash \<Rightarrow> Inr (base64url_encode P (hash disclosure)))"

definition parseDisclosure :: "platform \<Rightarrow> string \<Rightarrow> js_error + jsval" where
  "parseDisclosure P disclosure =
     (case base64url_decode P disclosure of
        Inl e \<Rightarrow> Inl e
      | Inr input \<Rightarrow>
          (case JSON_parse P (utf8_decode P input) of
             Inl e \<Rightarrow> Inl e
           | Inr parsed \<Rightarrow>
               (case js_length parsed of
                  Inl e \<Rightarrow> Inl e
                | Inr len \<Rightarrow>
                    if \<not> loose_eq_number P len (Finite 3 0)
                    then Inl (Error (''can't parse disclosure: '' @ disclosure))
                    else Inr parsed)))"

text \<open>
  The salts come from \<open>crypto.randomBytes\<close>: the random source is a stream of bytes \<open>rng\<close>,
  and the \<open>i\<close>-th call takes the next \<open>SALT_BYTE_SIZE\<close> of them.
\<close>

definition randomBytes :: "(nat \<Rightarrow> byte) \<Rightarrow> nat \<Rightarrow> bytes" where
  "randomBytes rng i = map rng [i * SALT_BYTE_SIZE ..< i * SALT_BYTE_SIZE + SALT_BYTE_SIZE]"

text \<open>The loop of \<open>createDisclosures\<close> over salts, names and values; it stops at the first throw.\<close>

fun disclosure_loop ::
  "platform \<Rightarrow> string \<Rightarrow> (bytes \<times> string \<times> jsval) list \<Rightarrow> js_error + (string list \<times> string list)" where
  "disclosure_loop P hashAlg [] = Inr ([], [])"
| "disclosure_loop P hashAlg ((salt, name, val) # rest) =
     (if typeof val = ''object'' then Inl (Error ''Not yet implemented'')
      else
        let disclosureArray = [JStr (base64url_encode P salt), JStr name, val];
            disclosure = encodeDisclosure P disclosureArray
        in case hashDisclosure P hashAlg disclosure of
             Inl e \<Rightarrow> Inl e
           | Inr disclosureDigest \<Rightarrow>
               (case disclosure_loop P hashAlg rest of
                  Inl e \<Rightarrow> Inl e
                | Inr (ds, hs) \<Rightarrow> Inr (disclosure # ds, disclosureDigest # hs)))"

text \<open>
  \<open>sdDigests.sort()\<close> orders strings by their code units: the lexicographic order of
  \<open>string\<close>. The result is the updated payload and the disclosures.
\<close>

definition createDisclosures ::
  "platform \<Rightarrow> (nat \<Rightarrow> byte) \<Rightarrow> string \<Rightarrow> (string \<times> jsval) list \<Rightarrow> JwtCredentialPayload
     \<Rightarrow> js_error + (JwtCredentialPayload \<times> string list)" where
  "createDisclosures P rng hashAlg claimValues target =
     (let names = map fst claimValues;
          vals = map snd claimValues;
          salts = map (randomBytes rng) [0 ..< length names]
      in case disclosure_loop P hashAlg (zip salts (zip names vals)) of
           Inl e \<Rightarrow> Inl e
         | Inr (disclosures, sdDigests) \<Rightarrow>
             let subject = removeKeysFromObject (credentialSubject (vc target)) names;
                 subject' = defineProperty subject ''_sd'' (JArr (map JStr (sort sdDigests)))
             in Inr (target\<lparr>vc := (vc target)\<lparr>credentialSubject := subject'\<rparr>\<rparr>, disclosures))"

text \<open>The callback of \<open>filter\<close> parses every disclosure in turn; the first throw ends the call.\<close>

fun filter_disclosures :: "platform \<Rightarrow> string list \<Rightarrow> string list \<Rightarrow> js_error + string list" where
  "filter_disclosures P claims [] = Inr []"
| "filter_disclosures P claims (d # ds) =
     (case parseDisclosure P d of
        Inl e \<Rightarrow> Inl e
      | Inr parsed \<Rightarrow>
          (case js_index parsed 1 of
             Inl e \<Rightarrow> Inl e
           | Inr name \<Rightarrow>
               (case filter_disclosures P claims ds of
                  Inl e \<Rightarrow> Inl e
                | Inr kept \<Rightarrow> Inr (if array_includes claims name then d # kept else kept))))"

text \<open>An \<open>async\<close> function: a throw is the rejection of the returned promise.\<close>

definition discloseClaims :: "platform \<Rightarrow> string \<Rightarrow> string list \<Rightarrow> js_error + string" where
  "discloseClaims P sdJwt claims =
     (let parts = js_split CHR ''~'' sdJwt
      in if length parts \<le> 1 then Inl (Error ''No Disclosures found in SD-JWT'')
         else
           let JWS = hd parts;
               disclosures = tl parts
           in case filter_disclosures P claims disclosures of
                Inl e \<Rightarrow> Inl e
              | Inr kept \<Rightarrow> Inr (JWS @ (''~'' @ js_join ''~'' kept)))"


section \<open>Serialisation of the RevocationList (revocation.ts)\<close>

text \<open>
  \<open>bitArray.buffer\<close> is the array's storage: eight bytes a word, least significant first.
  \<open>new BigUint64Array(buffer)\<close> reads it back, and throws a RangeError when the byte
  length is not a multiple of 8.
\<close>

definition word_bytes :: "64 word \<Rightarrow> bytes" where
  "word_bytes w = map (\<lambda>k. ucast (drop_bit (8 * k) w)) [0 ..< 8]"

definition buffer_of :: "64 word list \<Rightarrow> bytes" where
  "buffer_of ws = concat (map word_bytes ws)"

definition word_of_bytes :: "bytes \<Rightarrow> 64 word" where
  "word_of_bytes bs = foldr (\<lambda>b acc. ucast b OR push_bit 8 acc) bs 0"

fun words_of_buffer :: "bytes \<Rightarrow> 64 word list" where
  "words_of_buffer (b0 # b1 # b2 # b3 # b4 # b5 # b6 # b7 # rest) =
     word_of_bytes [b0, b1, b2, b3, b4, b5, b6, b7] # words_of_buffer rest"
| "words_of_buffer rest = []"

definition BigUint64Array_of_buffer :: "bytes \<Rightarrow> js_error + 64 word list" where
  "BigUint64Array_of_buffer buf =
     (if length buf mod 8 \<noteq> 0 then Inl RangeError else Inr (words_of_buffer buf))"

text \<open>\<open>String.fromCharCode.apply(null, Array.from(bytes))\<close>: one code unit for each byte.\<close>

definition fromCharCode :: "bytes \<Rightarrow> string" where
  "fromCharCode bs = map (\<lambda>b. char_of (unat b)) bs"

definition parse :: "platform \<Rightarrow> string \<Rightarrow> js_error + RevocationList" where
  "parse P input =
     (let original_str = Buffer_from_base64 P input
      in case ungzip P original_str of
           Inl e \<Rightarrow> Inl e
         | Inr originalText \<Rightarrow>
             (case BigUint64Array_of_buffer originalText of
                Inl e \<Rightarrow> Inl e
              | Inr ws \<Rightarrow> Inr \<lparr>bitArray = ws\<rparr>))"

definition stringify :: "platform \<Rightarrow> RevocationList \<Rightarrow> string" where
  "stringify P input =
     (let new_str = gzip P (buffer_of (bitArray input))
      in btoa P (fromCharCode new_str))"

section \<open>The issuer's credential functions (credential.ts)\<close>

text \<open>\<open>Object.assign(target, src)\<close> and the spread \<open>{...src}\<close>: the properties of \<open>src\<close> in
  order, each replacing the value of a key already there or created.\<close>

definition object_assign :: "(string \<times> jsval) list \<Rightarrow> (string \<times> jsval) list \<Rightarrow> (string \<times> jsval) list" where
  "object_assign target src = fold (\<lambda>kv obj. defineProperty obj (fst kv) (snd kv)) src target"

definition createCredential ::
  "platform \<Rightarrow> string \<Rightarrow> string \<Rightarrow> (string \<times> jsval) list \<Rightarrow> string list
     \<Rightarrow> (string \<times> jsval) list option \<Rightarrow> (string \<times> jsval) list" where
  "createCredential P issuerDID subjectDID subject credentialType additionalProperties =
     (let credential =
            [(''@context'', JArr [JStr (DEFAULT_CONTEXT P)]),
             (''credentialSubject'', JObj (object_assign [(''id'', JStr subjectDID)] subject)),
             (''issuer'', JObj [(''id'', JStr issuerDID)]),
             (''type'', JArr (JStr (VERIFIABLE_CREDENTIAL P) # map JStr credentialType)),
             (''issuanceDate'', JStr (now_iso P))]
      in case additionalProperties of
           None \<Rightarrow> credential
         | Some props \<Rightarrow> object_assign credential props)"

text \<open>
  A \<open>VerifiableCredential\<close> is a JWT string or a credential object; of the object the
  function reads \<open>credentialStatus\<close> only.
\<close>

record credential_status =
  status_id :: string
  status_type :: string

record w3c_credential =
  credentialStatus :: "credential_status option"

datatype VerifiableCredential = JWT string | W3C w3c_credential

text \<open>
  The callback passed to \<open>then\<close>, with what it awaits. \<open>credId\<close> is the result of
  \<open>parseInt\<close>: on \<open>NaN\<close> no comparison of \<open>revokeCredential\<close> holds and
  \<open>BigInt(NaN)\<close> in \<open>getBitArrayValues\<close> throws a RangeError.
\<close>

definition revoke_then ::
  "platform \<Rightarrow> string \<Rightarrow> int option \<Rightarrow> string \<Rightarrow> string \<Rightarrow> js_error + bool" where
  "revoke_then P listUrl credId issuerDID subjectDID =
     (case axios_get P (listUrl @ ''/list.json'') of
        Inl e \<Rightarrow> Inl e
      | Inr credentialList \<Rightarrow>
          (case parse P (encodedList credentialList) of
             Inl e \<Rightarrow> Inl e
           | Inr list \<Rightarrow>
               (case (case credId of None \<Rightarrow> Inl RangeError | Some i \<Rightarrow> revokeCredential list i) of
                  Inl e \<Rightarrow> Inl e
                | Inr list' \<Rightarrow>
                    let subject =
                          [(''id'', subject_id credentialList),
                           (''type'', subject_type credentialList),
                           (''purpose'', subject_purpose credentialList),
                           (''encodedList'', JStr (stringify P list'))];
                        newCredentialList =
                          createCredential P issuerDID subjectDID subject [''StatusList2021''] None
                    in (case axios_post P (listUrl @ ''/statusList'') (JObj newCredentialList) of
                          Inl e \<Rightarrow> Inl e
                        | Inr u \<Rightarrow> Inr True))))"

text \<open>
  The promise \<open>_result\<close>: the \<open>catch\<close> turns every throw of the chain into \<open>false\<close>.
\<close>

definition revoke_promise ::
  "platform \<Rightarrow> string \<Rightarrow> int option \<Rightarrow> string \<Rightarrow> string \<Rightarrow> bool" where
  "revoke_promise P listUrl credId issuerDID subjectDID =
     (case revoke_then P listUrl credId issuerDID subjectDID of Inl e \<Rightarrow> False | Inr b \<Rightarrow> b)"

text \<open>
  What a call does: the value it returns to the caller, and the value to which the promise
  it started (if any) settles later. The function is not \<open>async\<close> and awaits nothing.
\<close>

record sl21_outcome =
  returned :: bool
  promise :: "bool option"

definition revokeCredentialSL21 ::
  "platform \<Rightarrow> VerifiableCredential \<Rightarrow> string \<Rightarrow> string \<Rightarrow> sl21_outcome" where
  "revokeCredentialSL21 P credential issuerDID subjectDID =
     (case credential of
        JWT s \<Rightarrow> \<lparr>returned = False, promise = None\<rparr>
      | W3C c \<Rightarrow>
          (case credentialStatus c of
             None \<Rightarrow> \<lparr>returned = False, promise = None\<rparr>
           | Some st \<Rightarrow>
               if status_type st = ''StatusList2021Entry'' then
                 let listUrl = hd (js_split CHR ''#'' (status_id st));
                     credId = parseInt P (last (js_split CHR ''#'' (status_id st)))
                 in \<lparr>returned = False,
                     promise = Some (revoke_promise P listUrl credId issuerDID subjectDID)\<rparr>
               else \<lparr>returned = False, promise = None\<rparr>))"


section \<open>A reference platform\<close>

text \<open>
  The theorems below hold for every platform. To run the functions on concrete inputs,
  \<open>ref_platform\<close> gives each field a definite meaning:
  \<^item> base64 and base64url of RFC 4648, decoded as Node's \<open>Buffer\<close> does: both alphabets are
    read, a character of neither is skipped, and the padding ends the input;
  \<^item> UTF-8 of code units below 256;
  \<^item> a JSON printer, and a JSON reader for null, booleans, strings, numbers without an
    exponent, and arrays of them;
  \<^item> ASCII lower case; \<open>parseInt\<close> with radix 10, or 16 after \<open>0x\<close>; \<open>ToNumber\<close> of a
    string of decimal digits;
  \<^item> Fletcher's 16-bit checksum in place of the SHA-2 digests, and a container that stores
    the data after the two magic bytes in place of gzip.
\<close>

subsection \<open>Base64\<close>

definition b64_std :: string where
  "b64_std = ''ABCDEFGHIJKLMNOPQRSTUVWXYZabcdefghijklmnopqrstuvwxyz0123456789+/''"

definition b64_url :: string where
  "b64_url = ''ABCDEFGHIJKLMNOPQRSTUVWXYZabcdefghijklmnopqrstuvwxyz0123456789-_''"

fun b64_encode :: "string \<Rightarrow> bool \<Rightarrow> nat list \<Rightarrow> string" where
  "b64_encode A pad [] = []"
| "b64_encode A pad [a] =
     [A ! (a div 4), A ! ((a mod 4) * 16)] @ (if pad then ''=='' else [])"
| "b64_encode A pad [a, b] =
     [A ! (a div 4), A ! ((a mod 4) * 16 + b div 16), A ! ((b mod 16) * 4)]
       @ (if pad then ''='' else [])"
| "b64_encode A pad (a # b # c # rest) =
     [A ! (a div 4), A ! ((a mod 4) * 16 + b div 16), A ! ((b mod 16) * 4 + c div 64), A ! (c mod 64)]
       @ b64_encode A pad rest"

fun index_of :: "char \<Rightarrow> string \<Rightarrow> nat option" where
  "index_of c [] = None"
| "index_of c (x # xs) = (if x = c then Some 0 else map_option Suc (index_of c xs))"

text \<open>The value of a character of either alphabet.\<close>

definition b64_value :: "char \<Rightarrow> nat option" where
  "b64_value c =
     (case index_of c b64_std of
        Some v \<Rightarrow> Some v
      | None \<Rightarrow> if c = CHR ''-'' then Some 62 else if c = CHR ''_'' then Some 63 else None)"

fun sextets_lenient :: "string \<Rightarrow> nat list" where
  "sextets_lenient [] = []"
| "sextets_lenient (c # cs) =
     (if c = CHR ''='' then []
      else case b64_value c of
             None \<Rightarrow> sextets_lenient cs
           | Some v \<Rightarrow> v # sextets_lenient cs)"

fun sextet_bytes :: "nat list \<Rightarrow> nat list" where
  "sextet_bytes (a # b # c # d # rest) =
     [a * 4 + b div 16, (b mod 16) * 16 + c div 4, (c mod 4) * 64 + d] @ sextet_bytes rest"
| "sextet_bytes [a, b, c] = [a * 4 + b div 16, (b mod 16) * 16 + c div 4]"
| "sextet_bytes [a, b] = [a * 4 + b div 16]"
| "sextet_bytes rest = []"

definition b64_decode :: "string \<Rightarrow> bytes" where
  "b64_decode s = map of_nat (sextet_bytes (sextets_lenient s))"

definition ref_base64url_encode :: "bytes \<Rightarrow> string" where
  "ref_base64url_encode bs = b64_encode b64_url False (map unat bs)"

definition ref_base64url_decode :: "string \<Rightarrow> js_error + bytes" where
  "ref_base64url_decode s = Inr (b64_decode s)"

definition ref_btoa :: "string \<Rightarrow> string" where
  "ref_btoa s = b64_encode b64_std True (map of_char s)"

definition ref_Buffer_from_base64 :: "string \<Rightarrow> bytes" where
  "ref_Buffer_from_base64 s = b64_decode s"

subsection \<open>UTF-8\<close>

definition utf8_bytes :: "char \<Rightarrow> nat list" where
  "utf8_bytes c =
     (let n = of_char c :: nat
      in if n < 128 then [n] else [192 + n div 64, 128 + n mod 64])"

definition ref_utf8_encode :: "string \<Rightarrow> bytes" where
  "ref_utf8_encode s = map of_nat (concat (map utf8_bytes s))"

fun utf8_units :: "nat list \<Rightarrow> string" where
  "utf8_units [] = []"
| "utf8_units [a] = [char_of a]"
| "utf8_units (a # b # rest) =
     (if a < 128 then char_of a # utf8_units (b # rest)
      else char_of ((a mod 4) * 64 + b mod 64) # utf8_units rest)"

definition ref_utf8_decode :: "bytes \<Rightarrow> string" where
  "ref_utf8_decode bs = utf8_units (map unat bs)"

subsection \<open>JSON\<close>

text \<open>
  A number \<open>Finite m k\<close> is printed in full: the sign, the digits of the integer part, and
  after a point the \<open>k\<close> digits of the fraction. (\<open>JSON.stringify\<close> prints the shortest
  decimal that reads back as the same double, with an exponent from \<open>1e21\<close> on and below
  \<open>1e-6\<close>.)
\<close>

function digits_text :: "int \<Rightarrow> string" where
  "digits_text n =
     (if n < 10 then [digit_char (nat n)]
      else digits_text (n div 10) @ [digit_char (nat (n mod 10))])"
  by pat_completeness auto
termination
  by (relation "measure nat") auto

declare digits_text.simps [simp del]

definition unsigned_text :: "int \<Rightarrow> nat \<Rightarrow> string" where
  "unsigned_text n k =
     (let ds = digits_text n;
          padded = replicate (Suc k - length ds) CHR ''0'' @ ds;
          i = length padded - k
      in take i padded @ (if k = 0 then [] else ''.'' @ drop i padded))"

definition number_text :: "int \<Rightarrow> nat \<Rightarrow> string" where
  "number_text m k = (if m < 0 then ''-'' else []) @ unsigned_text \<bar>m\<bar> k"

text \<open>A string is printed between quotes, with the escapes of \<open>JSON.stringify\<close>.\<close>

definition hex_char :: "nat \<Rightarrow> char" where
  "hex_char d = (if d < 10 then char_of (48 + d) else char_of (87 + d))"

definition escape_char :: "char \<Rightarrow> string" where
  "escape_char c =
     (let n = of_char c :: nat
      in if n = 0x22 then [CHR 0x5C, CHR 0x22]
         else if n = 0x5C then [CHR 0x5C, CHR 0x5C]
         else if n = 8 then [CHR 0x5C, CHR ''b'']
         else if n = 9 then [CHR 0x5C, CHR ''t'']
         else if n = 10 then [CHR 0x5C, CHR ''n'']
         else if n = 12 then [CHR 0x5C, CHR ''f'']
         else if n = 13 then [CHR 0x5C, CHR ''r'']
         else if n < 32 then [CHR 0x5C, CHR ''u'', CHR ''0'', CHR ''0'', hex_char (n div 16), hex_char (n mod 16)]
         else [c])"

definition json_escape :: "string \<Rightarrow> string" where
  "json_escape s = concat (map escape_char s)"

definition json_quote :: "string \<Rightarrow> string" where
  "json_quote s = [CHR 0x22] @ json_escape s @ [CHR 0x22]"

fun ref_JSON_stringify :: "jsval \<Rightarrow> string" where
  "ref_JSON_stringify (JBool b) = (if b then ''true'' else ''false'')"
| "ref_JSON_stringify (JNum (Finite m k)) = number_text m k"
| "ref_JSON_stringify (JStr s) = json_quote s"
| "ref_JSON_stringify (JArr xs) = ''['' @ js_join '','' (map ref_JSON_stringify xs) @ '']''"
| "ref_JSON_stringify (JObj kvs) =
     ''{'' @ js_join '','' (map (\<lambda>kv. json_quote (fst kv) @ '':'' @ ref_JSON_stringify (snd kv)) kvs)
       @ ''}''"
| "ref_JSON_stringify v = ''null''"

text \<open>The reader of numbers: an optional sign, digits without a superfluous leading zero,
  and digits after a point. The value read is brought to lowest terms.\<close>

fun normalise :: "int \<Rightarrow> nat \<Rightarrow> number" where
  "normalise m 0 = Finite m 0"
| "normalise m (Suc k) = (if m mod 10 = 0 then normalise (m div 10) k else Finite m (Suc k))"

definition read_unsigned :: "string \<Rightarrow> ((int \<times> nat) \<times> string) option" where
  "read_unsigned s =
     (let ip = takeWhile is_digit s;
          r = dropWhile is_digit s
      in if ip = [] then None
         else if take 1 ip = ''0'' \<and> 1 < length ip then None
         else if take 1 r = ''.'' then
           (let fp = takeWhile is_digit (drop 1 r);
                r' = dropWhile is_digit (drop 1 r)
            in if fp = [] then None
               else Some ((digits_value (ip @ fp), length fp), r'))
         else Some ((digits_value ip, 0), r))"

definition json_number :: "string \<Rightarrow> (jsval \<times> string) option" where
  "json_number s =
     (if take 1 s = ''-''
      then map_option (\<lambda>r. (JNum (normalise (- fst (fst r)) (snd (fst r))), snd r))
             (read_unsigned (drop 1 s))
      else map_option (\<lambda>r. (JNum (normalise (fst (fst r)) (snd (fst r))), snd r))
             (read_unsigned s))"

text \<open>The reader of strings, after the opening quote.\<close>

definition hex_val :: "char \<Rightarrow> nat option" where
  "hex_val c =
     (let n = of_char c :: nat
      in if 48 \<le> n \<and> n \<le> 57 then Some (n - 48)
         else if 97 \<le> n \<and> n \<le> 102 then Some (n - 87)
         else if 65 \<le> n \<and> n \<le> 70 then Some (n - 55)
         else None)"

definition unescape :: "char \<Rightarrow> char option" where
  "unescape e =
     (if e = CHR 0x22 then Some (CHR 0x22)
      else if e = CHR 0x5C then Some (CHR 0x5C)
      else if e = CHR ''/'' then Some (CHR ''/'')
      else if e = CHR ''b'' then Some (CHR 0x08)
      else if e = CHR ''t'' then Some (CHR 0x09)
      else if e = CHR ''n'' then Some (CHR 0x0A)
      else if e = CHR ''f'' then Some (CHR 0x0C)
      else if e = CHR ''r'' then Some (CHR 0x0D)
      else None)"

text \<open>What follows a backslash: a character escape, or \<open>u\<close> and four hexadecimal digits of
  a code unit (below 256, as all code units here).\<close>

definition read_escape :: "string \<Rightarrow> (char \<times> string) option" where
  "read_escape s =
     (case s of
        [] \<Rightarrow> None
      | e # r \<Rightarrow>
          if e = CHR ''u'' then
            (case r of
               h1 # h2 # h3 # h4 # r' \<Rightarrow>
                 (case (hex_val h1, hex_val h2, hex_val h3, hex_val h4) of
                    (Some a, Some b, Some c, Some d) \<Rightarrow>
                      if ((a * 16 + b) * 16 + c) * 16 + d < 256
                      then Some (char_of (((a * 16 + b) * 16 + c) * 16 + d), r')
                      else None
                  | _ \<Rightarrow> None)
             | _ \<Rightarrow> None)
          else map_option (\<lambda>ch. (ch, r)) (unescape e))"

fun json_string_body :: "nat \<Rightarrow> string \<Rightarrow> (string \<times> string) option" where
  "json_string_body 0 s = None"
| "json_string_body (Suc fuel) [] = None"
| "json_string_body (Suc fuel) (c # cs) =
     (if c = CHR 0x22 then Some ([], cs)
      else if (of_char c :: nat) < 32 then None
      else if c = CHR 0x5C then
        (case read_escape cs of
           None \<Rightarrow> None
         | Some (ch, r) \<Rightarrow> map_option (\<lambda>x. (ch # fst x, snd x)) (json_string_body fuel r))
      else map_option (\<lambda>x. (c # fst x, snd x)) (json_string_body fuel cs))"

definition json_scalar :: "string \<Rightarrow> (jsval \<times> string) option" where
  "json_scalar s =
     (case json_number s of
        Some r \<Rightarrow> Some r
      | None \<Rightarrow>
          if take 4 s = ''null'' then Some (JNull, drop 4 s)
          else if take 4 s = ''true'' then Some (JBool True, drop 4 s)
          else if take 5 s = ''false'' then Some (JBool False, drop 5 s)
          else if take 1 s = [CHR 0x22]
          then map_option (\<lambda>r. (JStr (fst r), snd r)) (json_string_body (length s) (drop 1 s))
          else None)"


fun json_items :: "nat \<Rightarrow> string \<Rightarrow> jsval list option" where
  "json_items 0 s = None"
| "json_items (Suc fuel) s =
     (case json_scalar s of
        None \<Rightarrow> None
      | Some (v, rest) \<Rightarrow>
          if rest = '']'' then Some [v]
          else if take 1 rest = '','' then map_option ((#) v) (json_items fuel (drop 1 rest))
          else None)"

definition ref_JSON_parse :: "string \<Rightarrow> js_error + jsval" where
  "ref_JSON_parse s =
     (if s = ''[]'' then Inr (JArr [])
      else if take 1 s = ''['' then
        (case json_items (length s) (drop 1 s) of
           None \<Rightarrow> Inl SyntaxError
         | Some vs \<Rightarrow> Inr (JArr vs))
      else (case json_scalar s of
              Some (v, []) \<Rightarrow> Inr v
            | _ \<Rightarrow> Inl SyntaxError))"

subsection \<open>Numbers from strings, lower case, digest and compression\<close>

text \<open>\<open>parseInt(s)\<close>: leading white space and a sign are skipped, \<open>0x\<close> selects radix 16,
  and the longest prefix of digits is read; none is \<open>NaN\<close>.\<close>

definition is_space :: "char \<Rightarrow> bool" where
  "is_space c = ((of_char c :: nat) \<in> set [9, 10, 11, 12, 13, 32, 160])"

definition is_hex :: "char \<Rightarrow> bool" where
  "is_hex c = (case hex_val c of None \<Rightarrow> False | Some d \<Rightarrow> True)"

definition hex_digit :: "char \<Rightarrow> int" where
  "hex_digit c = (case hex_val c of None \<Rightarrow> 0 | Some d \<Rightarrow> int d)"

definition read_radix :: "string \<Rightarrow> int option" where
  "read_radix u =
     (if take 2 u = ''0x'' \<or> take 2 u = ''0X'' then
        (let ds = takeWhile is_hex (drop 2 u)
         in if ds = [] then None else Some (foldl (\<lambda>acc c. 16 * acc + hex_digit c) 0 ds))
      else
        (let ds = takeWhile is_digit u
         in if ds = [] then None else Some (digits_value ds)))"

definition ref_parseInt :: "string \<Rightarrow> int option" where
  "ref_parseInt s =
     (let t = dropWhile is_space s
      in if take 1 t = ''-'' then map_option uminus (read_radix (drop 1 t))
         else if take 1 t = ''+'' then read_radix (drop 1 t)
         else read_radix t)"

definition ref_ToNumber :: "jsval \<Rightarrow> number" where
  "ref_ToNumber v =
     (case v of
        JStr s \<Rightarrow> if list_all is_digit s then Finite (digits_value s) 0 else NaN
      | _ \<Rightarrow> NaN)"

definition ref_toLowerCase :: "string \<Rightarrow> string" where
  "ref_toLowerCase s =
     map (\<lambda>c. let n = of_char c :: nat in if 65 \<le> n \<and> n \<le> 90 then char_of (n + 32) else c) s"

definition checksum :: "string \<Rightarrow> bytes" where
  "checksum s =
     (let r = fold (\<lambda>c ab. let a = (fst ab + of_char c) mod 255 in (a, (snd ab + a) mod 255)) s
                   (0 :: nat, 0 :: nat)
      in [of_nat (snd r), of_nat (fst r)])"

definition ref_createHash :: "string \<Rightarrow> js_error + (string \<Rightarrow> bytes)" where
  "ref_createHash name =
     (if name \<in> set [''sha256'', ''sha384'', ''sha512''] then Inr checksum
      else Inl (LibError ''Digest method not supported''))"

definition ref_gzip :: "bytes \<Rightarrow> bytes" where
  "ref_gzip bs = 0x1f # 0x8b # bs"

definition ref_ungzip :: "bytes \<Rightarrow> js_error + bytes" where
  "ref_ungzip bs =
     (case bs of
        a # b # rest \<Rightarrow> if a = 0x1f \<and> b = 0x8b then Inr rest else Inl (LibError ''incorrect header check'')
      | _ \<Rightarrow> Inl (LibError ''unexpected end of file''))"

definition ref_platform :: platform where
  "ref_platform =
     \<lparr>base64url_encode = ref_base64url_encode,
      base64url_decode = ref_base64url_decode,
      utf8_encode = ref_utf8_encode,
      utf8_decode = ref_utf8_decode,
      JSON_stringify = ref_JSON_stringify,
      JSON_parse = ref_JSON_parse,
      ToNumber = ref_ToNumber,
      toLowerCase = ref_toLowerCase,
      createHash = ref_createHash,
      gzip = ref_gzip,
      ungzip = ref_ungzip,
      btoa = ref_btoa,
      Buffer_from_base64 = ref_Buffer_from_base64,
      parseInt = ref_parseInt,
      axios_get = (\<lambda>url. Inl (LibError ''Network Error'')),
      axios_post = (\<lambda>url doc. Inl (LibError ''Network Error'')),
      DEFAULT_CONTEXT = ''https://www.w3.org/2018/credentials/v1'',
      VERIFIABLE_CREDENTIAL = ''VerifiableCredential'',
      now_iso = ''2023-09-01T00:00:00.000Z''\<rparr>"

text \<open>A fixed stream of bytes in place of the random source, for the concrete runs.\<close>

definition ref_rng :: "nat \<Rightarrow> byte" where
  "ref_rng n = of_nat (n * 37 + 11)"

text \<open>
  The reference platform with a network: one status list is published, with no credential
  revoked, and the \<open>POST\<close> of its replacement is accepted.
\<close>

definition ref_online :: platform where
  "ref_online = ref_platform
     \<lparr>axios_get := (\<lambda>url. if url = ''https://issuer.example/lists/1/list.json''
                          then Inr \<lparr>subject_id = JStr ''https://issuer.example/lists/1'',
                                    subject_type = JStr ''StatusList2021'',
                                    subject_purpose = JStr ''revocation'',
                                    encodedList = stringify ref_platform new_RevocationList\<rparr>
                          else Inl (LibError ''Request failed with status code 404'')),
      axios_post := (\<lambda>url doc. if url = ''https://issuer.example/lists/1/statusList'' then Inr ()
                               else Inl (LibError ''Request failed with status code 404''))\<rparr>"

section \<open>What the disclosure codec needs of the libraries\<close>


section \<open>Properties of the RevocationList\<close>

lemma and_mask_eq_iff: "(k AND 2 ^ n = (2 ^ n :: int)) \<longleftrightarrow> bit k n"
proof
  assume "k AND 2 ^ n = 2 ^ n"
  then have "bit (k AND 2 ^ n) n = bit (2 ^ n :: int) n" by simp
  then show "bit k n" by (simp add: bit_simps)
next
  assume "bit k n"
  then show "k AND 2 ^ n = 2 ^ n"
    by - (rule bit_eqI, auto simp add: bit_simps)
qed

lemma js_rem_nonneg: "0 \<le> a \<Longrightarrow> js_rem a 64 = a mod 64"
  by (simp add: js_rem_def sgn_if)

lemma word_of_or_mask: "(word_of_int (uint w OR 2 ^ n) :: 64 word) = set_bit n w"
  by (rule bit_word_eqI) (auto simp add: bit_simps)

lemma length_new_RevocationList: "length (bitArray new_RevocationList) = 2000"
  by (simp add: new_RevocationList_def SIZE_def)

lemma getBitArrayValues_in_range:
  assumes "length (bitArray L) = 2000" "0 \<le> i" "i < 128000"
  shows "getBitArrayValues L i =
           \<lparr>arrayValue = Some (uint (bitArray L ! nat (1999 - i div 64))),
            mask = 2 ^ nat (i mod 64),
            arrayIndex = 1999 - i div 64\<rparr>"
proof -
  have "0 \<le> i div 64" "i div 64 < 2000" using assms by auto
  then show ?thesis using assms
    by (simp add: getBitArrayValues_def SIZE_def SIZE_PER_INDEX_def typed_get_def
        js_rem_nonneg bigint_shl_def Let_def)
qed

lemma getBitArrayValues_out_of_range:
  assumes "length (bitArray L) = 2000" "index < 0 \<or> 128000 \<le> index"
  shows "arrayIndex (getBitArrayValues L index) = 1999 - index div 64"
    and "arrayIndex (getBitArrayValues L index) < 0 \<or> 2000 \<le> arrayIndex (getBitArrayValues L index)"
    and "arrayValue (getBitArrayValues L index) = None"
  using assms
  by (auto simp add: getBitArrayValues_def SIZE_def SIZE_PER_INDEX_def typed_get_def Let_def)

lemma status_in_range:
  assumes "length (bitArray L) = 2000" "0 \<le> i" "i < 128000"
  shows "getCredentialStatus L i = Inr (bit (bitArray L ! nat (1999 - i div 64)) (nat (i mod 64)))"
proof -
  have "nat (i mod 64) < 64" using assms by simp
  then show ?thesis
    by (simp add: getCredentialStatus_def getBitArrayValues_in_range [OF assms] bigint_and_def
        and_mask_eq_iff bit_uint_iff)
qed

lemma status_out_of_range:
  assumes "length (bitArray L) = 2000" "index < 0 \<or> 128000 \<le> index"
  shows "getCredentialStatus L index = Inl TypeError"
  by (simp add: getCredentialStatus_def getBitArrayValues_out_of_range(3) [OF assms] bigint_and_def)

lemma revoke_in_range:
  assumes "length (bitArray L) = 2000" "0 \<le> i" "i < 128000"
  shows "revokeCredential L i =
           Inr (L\<lparr>bitArray := (bitArray L)[nat (1999 - i div 64) :=
                  set_bit (nat (i mod 64)) (bitArray L ! nat (1999 - i div 64))]\<rparr>)"
proof -
  have "0 \<le> i div 64" "i div 64 < 2000" using assms by auto
  then show ?thesis using assms
    by (simp add: revokeCredential_def getBitArrayValues_in_range [OF assms] bigint_or_def
        typed_set_def word_of_or_mask SIZE_def SIZE_PER_INDEX_def)
qed

lemma index_split: "(i::int) div 64 = j div 64 \<Longrightarrow> i mod 64 = j mod 64 \<Longrightarrow> i = j"
  by (metis mult_div_mod_eq)

text \<open>
  C2: \<open>revokeCredential\<close> range-checks its index, and \<open>revokeCredential(128000)\<close> fails with
  the index-out-of-range error. The guard of the code is \<open>index > 128000\<close>: on a new list the
  index 128000 passes it, the word index is \<open>-1\<close>, the word read is \<open>undefined\<close>, and the
  \<open>|\<close> throws a TypeError instead of the index-out-of-range error.
\<close>

theorem revokeCredential_at_capacity:
  "revokeCredential new_RevocationList 128000 = Inl TypeError
   \<and> revokeCredential new_RevocationList 128000 \<noteq> Inl index_out_of_range
   \<and> revokeCredential new_RevocationList 128001 = Inl index_out_of_range"
  by (simp add: revokeCredential_def new_RevocationList_def getBitArrayValues_def SIZE_def
      SIZE_PER_INDEX_def typed_get_def bigint_or_def index_out_of_range_def)

text \<open>
  C9: on a list of 2000 words and for every index \<open>i\<close> in \<open>[0, 128000)\<close>,
  \<open>revokeCredential(i)\<close> succeeds; right after it \<open>getCredentialStatus(i)\<close> is true; for
  every other index \<open>j\<close> in range \<open>getCredentialStatus(j)\<close> is unchanged; a second
  \<open>revokeCredential(i)\<close> leaves the whole bit vector unchanged; and no status that was true
  becomes anything else.
\<close>

theorem revoke_frame:
  assumes len: "length (bitArray L) = 2000" and i: "0 \<le> i" "i < 128000"
  shows "\<exists>L'. revokeCredential L i = Inr L'
           \<and> length (bitArray L') = 2000
           \<and> getCredentialStatus L' i = Inr True
           \<and> (\<forall>j. 0 \<le> j \<and> j < 128000 \<and> j \<noteq> i \<longrightarrow>
                 getCredentialStatus L' j = getCredentialStatus L j)
           \<and> revokeCredential L' i = Inr L'
           \<and> (\<forall>j. getCredentialStatus L j = Inr True \<longrightarrow> getCredentialStatus L' j = Inr True)"
proof -
  define w where "w = nat (1999 - i div 64)"
  define b where "b = nat (i mod 64)"
  define L' where "L' = L\<lparr>bitArray := (bitArray L)[w := set_bit b (bitArray L ! w)]\<rparr>"
  have wlt: "w < 2000" using i by (simp add: w_def)
  have b64: "b < 64" using i by (simp add: b_def)
  have r: "revokeCredential L i = Inr L'"
    unfolding L'_def w_def b_def by (rule revoke_in_range [OF len i])
  have len': "length (bitArray L') = 2000" by (simp add: L'_def len)
  have at_w: "bitArray L' ! w = set_bit b (bitArray L ! w)"
    using wlt len by (simp add: L'_def)
  have s: "getCredentialStatus L' i = Inr True"
    using b64 by (simp add: status_in_range [OF len' i] at_w bit_simps flip: w_def b_def)
  have f: "getCredentialStatus L' j = getCredentialStatus L j"
    if j: "0 \<le> j" "j < 128000" "j \<noteq> i" for j
  proof (cases "j div 64 = i div 64")
    case True
    then have "j mod 64 \<noteq> i mod 64" using index_split j(3) by blast
    then have "nat (j mod 64) \<noteq> b" using j i by (simp add: b_def nat_eq_iff)
    then show ?thesis
      using True at_w
      by (simp add: status_in_range [OF len' j(1,2)] status_in_range [OF len j(1,2)] bit_simps
          flip: w_def)
  next
    case False
    then have "nat (1999 - j div 64) \<noteq> w" using j i by (simp add: w_def nat_eq_iff)
    then show ?thesis
      using wlt len
      by (simp add: status_in_range [OF len' j(1,2)] status_in_range [OF len j(1,2)])
        (simp add: L'_def)
  qed
  have "set_bit b (set_bit b (bitArray L ! w)) = set_bit b (bitArray L ! w)"
    by (rule bit_word_eqI) (auto simp add: bit_simps)
  then have "(bitArray L')[w := set_bit b (bitArray L' ! w)] = bitArray L'"
    by (simp add: at_w) (simp add: L'_def)
  then have idem: "revokeCredential L' i = Inr L'"
    by (simp add: revoke_in_range [OF len' i] flip: w_def b_def)
  have mono: "getCredentialStatus L' j = Inr True" if t: "getCredentialStatus L j = Inr True" for j
  proof (cases "0 \<le> j \<and> j < 128000")
    case True
    then show ?thesis using s f t by (cases "j = i") auto
  next
    case False
    then have "getCredentialStatus L j = Inl TypeError"
      by (intro status_out_of_range [OF len]) auto
    with t show ?thesis by simp
  qed
  show ?thesis using r len' s f idem mono by blast
qed

theorem revoke_frame_witness:
  "length (bitArray new_RevocationList) = 2000 \<and> (0::int) \<le> 42 \<and> (42::int) < 128000
   \<and> getCredentialStatus new_RevocationList 41 = Inr False
   \<and> (\<exists>L'. revokeCredential new_RevocationList 42 = Inr L'
          \<and> getCredentialStatus L' 42 = Inr True
          \<and> getCredentialStatus L' 41 = Inr False
          \<and> revokeCredential L' 42 = Inr L')"
proof -
  have len: "length (bitArray new_RevocationList) = 2000" by (rule length_new_RevocationList)
  have s41: "getCredentialStatus new_RevocationList 41 = Inr False"
    by (simp add: status_in_range [OF len]) (simp add: new_RevocationList_def SIZE_def)
  from revoke_frame [OF len, of 42] obtain L' where
    "revokeCredential new_RevocationList 42 = Inr L'"
    "getCredentialStatus L' 42 = Inr True"
    "\<forall>j. 0 \<le> j \<and> j < 128000 \<and> j \<noteq> 42 \<longrightarrow>
       getCredentialStatus L' j = getCredentialStatus new_RevocationList j"
    "revokeCredential L' 42 = Inr L'"
    by auto
  moreover from this(3) have "getCredentialStatus L' 41 = getCredentialStatus new_RevocationList 41"
    by simp
  ultimately show ?thesis using len s41 by auto
qed

text \<open>
  C10: \<open>getCredentialStatus\<close> has no bounds check of its own. On a list of 2000 words and
  for every index below 0 or at or above 128000, the word index falls outside the array, the
  word read is \<open>undefined\<close>, and the \<open>&\<close> throws a TypeError: the call returns no boolean
  and does not raise the index-out-of-range error of \<open>revokeCredential\<close>.
\<close>

theorem getCredentialStatus_unchecked:
  assumes "length (bitArray L) = 2000" and "index < 0 \<or> 128000 \<le> index"
  shows "(arrayIndex (getBitArrayValues L index) < 0 \<or> 2000 \<le> arrayIndex (getBitArrayValues L index))
       \<and> arrayValue (getBitArrayValues L index) = None
       \<and> getCredentialStatus L index = Inl TypeError
       \<and> (\<forall>b. getCredentialStatus L index \<noteq> Inr b)
       \<and> getCredentialStatus L index \<noteq> Inl index_out_of_range"
  using getBitArrayValues_out_of_range(2,3) [OF assms] status_out_of_range [OF assms]
  by (simp add: index_out_of_range_def)

theorem getCredentialStatus_unchecked_witness:
  "length (bitArray new_RevocationList) = 2000
   \<and> arrayValue (getBitArrayValues new_RevocationList 128000) = None
   \<and> getCredentialStatus new_RevocationList 128000 = Inl TypeError
   \<and> arrayValue (getBitArrayValues new_RevocationList (- 1)) = None
   \<and> getCredentialStatus new_RevocationList (- 1) = Inl TypeError"
  using getCredentialStatus_unchecked [OF length_new_RevocationList, of 128000]
    getCredentialStatus_unchecked [OF length_new_RevocationList, of "- 1"]
    length_new_RevocationList
  by simp

section \<open>Properties of the serialisation\<close>

lemma word_bytes_eq:
  "word_bytes w = [ucast w, ucast (drop_bit 8 w), ucast (drop_bit 16 w), ucast (drop_bit 24 w),
                   ucast (drop_bit 32 w), ucast (drop_bit 40 w), ucast (drop_bit 48 w), ucast (drop_bit 56 w)]"
  by (simp add: word_bytes_def upt_rec)

lemma ucast_byte: "(ucast (ucast x :: 8 word) :: 64 word) = take_bit 8 x"
  by (rule bit_word_eqI) (simp add: bit_simps)

lemma byte_step:
  "take_bit 8 (drop_bit n w) OR push_bit 8 (drop_bit (8 + n) w) = drop_bit n (w :: 64 word)"
proof -
  have "drop_bit (8 + n) w = drop_bit 8 (drop_bit n w)" by (simp add: add.commute)
  then show ?thesis
    by (metis bits_ident disjunctive_add or.commute bit_take_bit_iff bit_push_bit_iff not_less)
qed

lemma last_byte: "take_bit 8 (drop_bit 56 w) = drop_bit 56 (w :: 64 word)"
  by (rule bit_word_eqI) (auto simp add: bit_simps dest: bit_imp_le_length)

lemma word_of_word_bytes: "word_of_bytes (word_bytes w) = w"
  unfolding word_bytes_eq word_of_bytes_def
  using byte_step [of 0 w] byte_step [of 8 w] byte_step [of 16 w] byte_step [of 24 w]
    byte_step [of 32 w] byte_step [of 40 w] byte_step [of 48 w]
  by (simp add: ucast_byte last_byte)

lemma length_buffer_of: "length (buffer_of ws) = 8 * length ws"
  by (induction ws) (simp_all add: buffer_of_def word_bytes_def)

lemma words_of_buffer_of: "words_of_buffer (buffer_of ws) = ws"
proof (induction ws)
  case Nil
  then show ?case by (simp add: buffer_of_def)
next
  case (Cons w ws)
  have "buffer_of (w # ws) = word_bytes w @ buffer_of ws" by (simp add: buffer_of_def)
  then show ?case
    using Cons word_of_word_bytes [of w] by (simp add: word_bytes_eq)
qed

lemma BigUint64Array_of_buffer_of: "BigUint64Array_of_buffer (buffer_of ws) = Inr ws"
  by (simp add: BigUint64Array_of_buffer_def length_buffer_of words_of_buffer_of)

subsection \<open>Base64 on the reference platform\<close>

lemma dm: fixes k x n :: nat assumes "x < n" shows "(k * n + x) div n = k" "(k * n + x) mod n = x"
  using assms by simp_all

lemma sextet_bounds:
  fixes a b c :: nat
  assumes "a < 256" "b < 256" "c < 256"
  shows "a div 4 < 64" "b div 16 < 16" "c div 64 < 4" "a mod 4 * 16 < 64" "b mod 16 * 4 < 64"
    "a mod 4 * 16 + b div 16 < 64" "b mod 16 * 4 + c div 64 < 64" "c mod 64 < 64"
  using assms by auto

lemma sextet_join:
  fixes a b c :: nat
  assumes "a < 256" "b < 256" "c < 256"
  shows "a div 4 * 4 + (a mod 4 * 16 + b div 16) div 16 = a"
    and "(a mod 4 * 16 + b div 16) mod 16 * 16 + (b mod 16 * 4 + c div 64) div 4 = b"
    and "(b mod 16 * 4 + c div 64) mod 4 * 64 + c mod 64 = c"
    and "a div 4 * 4 + a mod 4 * 16 div 16 = a"
    and "(a mod 4 * 16 + b div 16) mod 16 * 16 + b mod 16 * 4 div 4 = b"
proof -
  have b16: "b div 16 < 16" and c64: "c div 64 < 4" using assms by auto
  show "a div 4 * 4 + (a mod 4 * 16 + b div 16) div 16 = a" using b16 by (simp add: dm)
  show "(a mod 4 * 16 + b div 16) mod 16 * 16 + (b mod 16 * 4 + c div 64) div 4 = b"
    using b16 c64 by (simp add: dm)
  show "(b mod 16 * 4 + c div 64) mod 4 * 64 + c mod 64 = c" using c64 by (simp add: dm)
  show "a div 4 * 4 + a mod 4 * 16 div 16 = a" by simp
  show "(a mod 4 * 16 + b div 16) mod 16 * 16 + b mod 16 * 4 div 4 = b" using b16 by (simp add: dm)
qed

lemma b64_alphabets:
  "list_all (\<lambda>v. b64_value (b64_std ! v) = Some v \<and> b64_std ! v \<noteq> CHR ''='') [0 ..< 64]"
  "list_all (\<lambda>v. b64_value (b64_url ! v) = Some v \<and> b64_url ! v \<noteq> CHR ''='') [0 ..< 64]"
  by code_simp+

lemma lenient_char:
  assumes "v < 64"
  shows "sextets_lenient (b64_std ! v # cs) = v # sextets_lenient cs"
    and "sextets_lenient (b64_url ! v # cs) = v # sextets_lenient cs"
  using assms b64_alphabets by (simp_all add: list_all_iff)

lemma lenient_pad: "sextets_lenient (CHR ''='' # cs) = []"
  by simp

lemma b64_round_trip:
  "(\<forall>v cs. v < 64 \<longrightarrow> sextets_lenient (A ! v # cs) = v # sextets_lenient cs)
     \<Longrightarrow> \<forall>n \<in> set ns. n < 256
     \<Longrightarrow> sextet_bytes (sextets_lenient (b64_encode A pad ns)) = ns"
proof (induction A pad ns rule: b64_encode.induct)
  case (1 A pad)
  then show ?case by simp
next
  case (2 A pad a)
  then have a: "a < 256"
    and A: "\<And>v cs. v < 64 \<Longrightarrow> sextets_lenient (A ! v # cs) = v # sextets_lenient cs"
    by simp_all
  show ?case
    using sextet_bounds(1,4) [OF a a a] sextet_join(4) [OF a a a]
    by (simp add: A lenient_pad del: sextets_lenient.simps(2))
next
  case (3 A pad a b)
  then have a: "a < 256" and b: "b < 256"
    and A: "\<And>v cs. v < 64 \<Longrightarrow> sextets_lenient (A ! v # cs) = v # sextets_lenient cs"
    by simp_all
  show ?case
    using sextet_bounds(1,5,6) [OF a b b] sextet_join(1,5) [OF a b b]
    by (simp add: A lenient_pad del: sextets_lenient.simps(2))
next
  case (4 A pad a b c rest)
  then have a: "a < 256" and b: "b < 256" and c: "c < 256"
    and A: "\<And>v cs. v < 64 \<Longrightarrow> sextets_lenient (A ! v # cs) = v # sextets_lenient cs"
    by simp_all
  from 4 have IH: "sextet_bytes (sextets_lenient (b64_encode A pad rest)) = rest" by simp
  show ?case
    using sextet_bounds(1,6,7,8) [OF a b c] sextet_join(1,2,3) [OF a b c] IH
    by (simp add: A del: sextets_lenient.simps(2))
qed



lemma unat_byte_less: "unat (x :: byte) < 256"
  using unsigned_less [of x, where ?'a = nat] by simp

lemma ref_base64_round_trip: "ref_Buffer_from_base64 (ref_btoa (fromCharCode bs)) = bs"
proof -
  have "map of_char (fromCharCode bs) = map unat bs"
    by (simp add: fromCharCode_def unat_byte_less)
  moreover have "\<forall>n \<in> set (map unat bs). n < 256" using unat_byte_less by auto
  ultimately show ?thesis
    using lenient_char(1)
    by (simp add: ref_Buffer_from_base64_def b64_decode_def ref_btoa_def b64_round_trip o_def)
qed


lemma ref_parse_stringify: "parse ref_platform (stringify ref_platform L) = Inr L"
  by (simp add: parse_def stringify_def ref_platform_def ref_gzip_def ref_ungzip_def
      ref_base64_round_trip BigUint64Array_of_buffer_of)

text \<open>
  C8: for every RevocationList \<open>L\<close>, \<open>parse(stringify(L))\<close> yields a list whose words equal
  those of \<open>L\<close>, whenever pako's \<open>ungzip\<close> undoes its \<open>gzip\<close> and the base64 decoding of
  \<open>Buffer.from\<close> undoes \<open>btoa\<close> on the bytes of \<open>L\<close>.
\<close>

theorem parse_stringify:
  assumes "ungzip P (gzip P (buffer_of (bitArray L))) = Inr (buffer_of (bitArray L))"
    and "Buffer_from_base64 P (btoa P (fromCharCode (gzip P (buffer_of (bitArray L)))))
           = gzip P (buffer_of (bitArray L))"
  shows "parse P (stringify P L) = Inr (L :: RevocationList)"
  using assms by (simp add: parse_def stringify_def BigUint64Array_of_buffer_of)

theorem parse_stringify_witness:
  "length (bitArray new_RevocationList) = 2000
   \<and> ungzip ref_platform (gzip ref_platform (buffer_of (bitArray new_RevocationList)))
       = Inr (buffer_of (bitArray new_RevocationList))
   \<and> Buffer_from_base64 ref_platform
        (btoa ref_platform (fromCharCode (gzip ref_platform (buffer_of (bitArray new_RevocationList)))))
       = gzip ref_platform (buffer_of (bitArray new_RevocationList))
   \<and> parse ref_platform (stringify ref_platform new_RevocationList) = Inr new_RevocationList"
proof -
  have g: "ungzip ref_platform (gzip ref_platform bs) = Inr bs" for bs
    by (simp add: ref_platform_def ref_gzip_def ref_ungzip_def)
  have b: "Buffer_from_base64 ref_platform (btoa ref_platform (fromCharCode bs)) = bs" for bs
    by (simp add: ref_platform_def ref_base64_round_trip)
  show ?thesis
    using length_new_RevocationList g b parse_stringify [of ref_platform new_RevocationList]
    by simp
qed

text \<open>A run on three words, with the string that \<open>stringify\<close> produces.\<close>

lemma stringify_run:
  "stringify ref_platform \<lparr>bitArray = [1, 2, 0x0102030405060708]\<rparr>
     = ''H4sBAAAAAAAAAAIAAAAAAAAACAcGBQQDAgE=''
   \<and> parse ref_platform ''H4sBAAAAAAAAAAIAAAAAAAAACAcGBQQDAgE=''
     = Inr \<lparr>bitArray = [1, 2, 0x0102030405060708]\<rparr>"
  by code_simp

section \<open>Properties of selective disclosure\<close>

subsection \<open>Strings and objects\<close>

lemma js_split_not_Nil: "js_split sep s \<noteq> []"
  by (induction s) (auto split: list.splits)

lemma js_split_no_sep: "sep \<notin> set s \<Longrightarrow> js_split sep s = [s]"
  by (induction s) auto

lemma js_split_at_first: "sep \<notin> set a \<Longrightarrow> js_split sep (a @ sep # b) = a # js_split sep b"
  by (induction a) auto

lemma map_of_replace:
  "map_of (map (\<lambda>kv. if fst kv = key then (key, v) else kv) obj) k =
     (if k = key then (if key \<in> fst ` set obj then Some v else None) else map_of obj k)"
  by (induction obj) force+

lemma keys_replace:
  "fst ` set (map (\<lambda>kv. if fst kv = key then (key, v) else kv) obj) = fst ` set obj"
  by (induction obj) force+

lemma set_insert_index: "set (insert_index i kv obj) = insert kv (set obj)"
  by (induction obj) (auto split: option.splits)

lemma set_add_property: "set (add_property obj key v) = insert (key, v) (set obj)"
  by (simp add: add_property_def set_insert_index split: option.splits)

lemma keys_insert_index: "map fst (insert_index i kv obj) \<in> {xs. set xs = insert (fst kv) (fst ` set obj)}"
  by (simp add: set_insert_index)

lemma distinct_insert_index:
  "fst kv \<notin> fst ` set obj \<Longrightarrow> distinct (map fst obj) \<Longrightarrow> distinct (map fst (insert_index i kv obj))"
  by (induction obj) (auto simp add: set_insert_index split: option.splits)

lemma map_of_insert_index:
  "fst kv \<notin> fst ` set obj \<Longrightarrow> map_of (insert_index i kv obj) k = (if k = fst kv then Some (snd kv) else map_of obj k)"
  by (induction obj) (auto split: option.splits)

lemma map_of_add_property:
  "key \<notin> fst ` set obj \<Longrightarrow> map_of (add_property obj key v) k = (if k = key then Some v else map_of obj k)"
proof -
  assume "key \<notin> fst ` set obj"
  then have n: "map_of obj key = None" by (simp add: map_of_eq_None_iff)
  show ?thesis
  proof (cases "array_index key")
    case None
    then show ?thesis using n by (auto simp add: add_property_def map_add_def split: option.splits)
  next
    case (Some i)
    then show ?thesis
      using \<open>key \<notin> fst ` set obj\<close> by (simp add: add_property_def map_of_insert_index)
  qed
qed

lemma map_of_defineProperty_same: "map_of (defineProperty obj key v) key = Some v"
  by (simp add: defineProperty_def map_of_replace map_of_add_property)

lemma map_of_defineProperty_other:
  assumes "k \<noteq> key"
  shows "map_of (defineProperty obj key v) k = map_of obj k"
  using assms by (simp add: defineProperty_def map_of_replace map_of_add_property)

lemma keys_defineProperty: "fst ` set (defineProperty obj key v) = insert key (fst ` set obj)"
proof (cases "key \<in> fst ` set obj")
  case True
  then have eq: "defineProperty obj key v = map (\<lambda>kv. if fst kv = key then (key, v) else kv) obj"
    by (simp add: defineProperty_def)
  show ?thesis unfolding eq keys_replace using True by (simp add: insert_absorb)
next
  case False
  then show ?thesis by (simp add: defineProperty_def set_add_property)
qed

lemma removeKeysFromObject_filter:
  "removeKeysFromObject obj ks = filter (\<lambda>kv. fst kv \<notin> set ks) obj"
  unfolding removeKeysFromObject_def
proof (induction ks arbitrary: obj)
  case Nil
  then show ?case by simp
next
  case (Cons k ks)
  show ?case by (simp add: Cons.IH) (simp add: delete_key_def conj_commute)
qed

lemma map_of_filter_keys:
  "k \<notin> S \<Longrightarrow> map_of (filter (\<lambda>kv. fst kv \<notin> S) obj) k = map_of obj k"
  by (induction obj) auto

subsection \<open>Issuance\<close>

lemma disclosure_loop_digests:
  "disclosure_loop P alg xs = Inr (ds, hs) \<Longrightarrow>
     length ds = length xs \<and> length hs = length xs
     \<and> list_all2 (\<lambda>d h. hashDisclosure P alg d = Inr h) ds hs"
proof (induction xs arbitrary: ds hs)
  case Nil
  then show ?case by simp
next
  case (Cons x xs)
  obtain salt name val where x: "x = (salt, name, val)" by (cases x) auto
  from Cons.prems show ?case
    unfolding x
    by (auto simp add: Let_def split: if_splits sum.splits prod.splits dest: Cons.IH)
qed

lemma createDisclosures_result:
  assumes "createDisclosures P rng alg claimValues target = Inr (target', ds)"
  obtains hs where
    "disclosure_loop P alg (zip (map (randomBytes rng) [0 ..< length claimValues]) claimValues) = Inr (ds, hs)"
    "credentialSubject (vc target') =
       defineProperty (removeKeysFromObject (credentialSubject (vc target)) (map fst claimValues))
         ''_sd'' (JArr (map JStr (sort hs)))"
  using assms
  by (auto simp add: createDisclosures_def Let_def zip_map_fst_snd split: sum.splits prod.splits)

text \<open>The loop throws \<open>Not yet implemented\<close> exactly at a value whose \<open>typeof\<close> is
  \<open>object\<close>: an object, an array, or \<open>null\<close>.\<close>

lemma typeof_object_iff:
  "typeof v = ''object'' \<longleftrightarrow> v = JNull \<or> (\<exists>xs. v = JArr xs) \<or> (\<exists>kvs. v = JObj kvs)"
  by (cases v) auto

lemma disclosure_loop_not_implemented:
  "disclosure_loop P alg xs = Inl (Error ''Not yet implemented'')
     \<Longrightarrow> \<exists>x \<in> set xs. typeof (snd (snd x)) = ''object''
         \<or> hashDisclosure P alg
              (encodeDisclosure P [JStr (base64url_encode P (fst x)), JStr (fst (snd x)), snd (snd x)])
            = Inl (Error ''Not yet implemented'')"
proof (induction xs)
  case Nil
  then show ?case by simp
next
  case (Cons x xs)
  obtain salt name val where x: "x = (salt, name, val)" by (cases x) auto
  from Cons.prems show ?case
    unfolding x
    by (auto simp add: Let_def split: if_splits sum.splits prod.splits dest: Cons.IH)
qed

text \<open>
  C3: issuance raises the nested-value error if and only if some hidden claim value is not a
  JSON primitive, and succeeds for every primitive value, \<open>null\<close> included. The test of the
  code is \<open>typeof values[i] === 'object'\<close>, which holds of \<open>null\<close>: hiding a claim whose
  value is \<open>null\<close> throws \<open>Not yet implemented\<close>, whatever the platform, the random bytes,
  the algorithm and the payload.
\<close>

theorem createDisclosures_null:
  "json_primitive JNull
   \<and> createDisclosures P rng hashAlg [(''middle'', JNull)] target = Inl (Error ''Not yet implemented'')"
  by (simp add: createDisclosures_def)

text \<open>The issuance of scenario A on the reference platform: the subject
  \<open>{fname, sname, nationalId}\<close> with \<open>fname\<close> and \<open>sname\<close> hidden under \<open>ES256K\<close>.\<close>

lemma issuance_run:
  "createDisclosures ref_platform ref_rng ''ES256K''
     [(''fname'', JStr ''John''), (''sname'', JStr ''Doe'')]
     \<lparr>vc = \<lparr>credentialSubject =
        [(''fname'', JStr ''John''), (''sname'', JStr ''Doe''), (''nationalId'', JStr ''ajj3i23293f290'')]\<rparr>\<rparr>
   = Inr (\<lparr>vc = \<lparr>credentialSubject =
             [(''nationalId'', JStr ''ajj3i23293f290''), (''_sd'', JArr [JStr ''nD0'', JStr ''ypI''])]\<rparr>\<rparr>,
          [''WyJDekJWZXBfRTZRNHpXSDJpeC13Uk5nIiwiZm5hbWUiLCJKb2huIl0'',
           ''WyJXNENseXU4VU9WNkRxTTN5Rnp4aGhnIiwic25hbWUiLCJEb2UiXQ''])"
  by code_simp

text \<open>
  C5: for every result of \<open>createDisclosures\<close> under algorithm \<open>alg\<close>, every disclosure
  \<open>D\<close> it returns has a digest \<open>hashDisclosure(alg, D)\<close>, and that digest is a member of
  \<open>credentialSubject._sd\<close> of the payload.
\<close>

theorem issued_digests_in_sd:
  assumes "createDisclosures P rng alg claimValues target = Inr (target', ds)"
    and "D \<in> set ds"
  shows "\<exists>h sd. hashDisclosure P alg D = Inr h
           \<and> map_of (credentialSubject (vc target')) ''_sd'' = Some (JArr sd)
           \<and> JStr h \<in> set sd"
proof -
  from assms(1) obtain hs where
    loop: "disclosure_loop P alg (zip (map (randomBytes rng) [0 ..< length claimValues]) claimValues) = Inr (ds, hs)"
    and subj: "credentialSubject (vc target') =
       defineProperty (removeKeysFromObject (credentialSubject (vc target)) (map fst claimValues))
         ''_sd'' (JArr (map JStr (sort hs)))"
    by (rule createDisclosures_result)
  from disclosure_loop_digests [OF loop]
  have "list_all2 (\<lambda>d h. hashDisclosure P alg d = Inr h) ds hs" by simp
  moreover from assms(2) obtain i where "i < length ds" "ds ! i = D"
    by (auto simp add: in_set_conv_nth)
  ultimately have "hs ! i \<in> set hs" "hashDisclosure P alg D = Inr (hs ! i)"
    by (auto simp add: list_all2_conv_all_nth)
  then obtain h where h: "h \<in> set hs" "hashDisclosure P alg D = Inr h" by blast
  have "map_of (credentialSubject (vc target')) ''_sd'' = Some (JArr (map JStr (sort hs)))"
    by (simp add: subj map_of_defineProperty_same)
  moreover have "JStr h \<in> set (map JStr (sort hs))" using h(1) by simp
  ultimately show ?thesis using h(2) by blast
qed

theorem issued_digests_in_sd_witness:
  "createDisclosures ref_platform ref_rng ''ES256K''
     [(''fname'', JStr ''John''), (''sname'', JStr ''Doe'')]
     \<lparr>vc = \<lparr>credentialSubject =
        [(''fname'', JStr ''John''), (''sname'', JStr ''Doe''), (''nationalId'', JStr ''ajj3i23293f290'')]\<rparr>\<rparr>
   = Inr (\<lparr>vc = \<lparr>credentialSubject =
             [(''nationalId'', JStr ''ajj3i23293f290''), (''_sd'', JArr [JStr ''nD0'', JStr ''ypI''])]\<rparr>\<rparr>,
          [''WyJDekJWZXBfRTZRNHpXSDJpeC13Uk5nIiwiZm5hbWUiLCJKb2huIl0'',
           ''WyJXNENseXU4VU9WNkRxTTN5Rnp4aGhnIiwic25hbWUiLCJEb2UiXQ''])
   \<and> (\<exists>h sd. hashDisclosure ref_platform ''ES256K''
                 ''WyJXNENseXU4VU9WNkRxTTN5Rnp4aGhnIiwic25hbWUiLCJEb2UiXQ'' = Inr h
          \<and> map_of [(''nationalId'', JStr ''ajj3i23293f290''), (''_sd'', JArr [JStr ''nD0'', JStr ''ypI''])] ''_sd''
              = Some (JArr sd)
          \<and> JStr h \<in> set sd)"
proof -
  note c = issuance_run
  have d: "''WyJXNENseXU4VU9WNkRxTTN5Rnp4aGhnIiwic25hbWUiLCJEb2UiXQ''
             \<in> set [''WyJDekJWZXBfRTZRNHpXSDJpeC13Uk5nIiwiZm5hbWUiLCJKb2huIl0'',
                    ''WyJXNENseXU4VU9WNkRxTTN5Rnp4aGhnIiwic25hbWUiLCJEb2UiXQ'']"
    by simp
  from issued_digests_in_sd [OF c d] show ?thesis using c by simp
qed

text \<open>
  C6, as the code has it: after \<open>createDisclosures\<close> has hidden \<open>n\<close> claims,
  \<open>credentialSubject._sd\<close> is an array of \<open>n\<close> digest strings in ascending lexicographic
  order; no hidden claim name other than \<open>_sd\<close> remains a key of \<open>credentialSubject\<close>; and
  every key other than \<open>_sd\<close> that is not hidden keeps its value. The key \<open>_sd\<close> is the one
  the function writes: as a hidden claim name it remains a key, and as a claim of the subject
  it is overwritten.
\<close>

theorem issued_subject_shape:
  assumes "createDisclosures P rng alg claimValues target = Inr (target', ds)"
  shows "(\<exists>sd. map_of (credentialSubject (vc target')) ''_sd'' = Some (JArr (map JStr sd))
             \<and> length sd = length claimValues \<and> sorted sd)
       \<and> (\<forall>name \<in> fst ` set claimValues. name \<noteq> ''_sd'' \<longrightarrow>
             name \<notin> fst ` set (credentialSubject (vc target')))
       \<and> (\<forall>k. k \<notin> fst ` set claimValues \<and> k \<noteq> ''_sd'' \<longrightarrow>
             map_of (credentialSubject (vc target')) k = map_of (credentialSubject (vc target)) k)"
proof -
  from assms obtain hs where
    loop: "disclosure_loop P alg (zip (map (randomBytes rng) [0 ..< length claimValues]) claimValues) = Inr (ds, hs)"
    and subj: "credentialSubject (vc target') =
       defineProperty (removeKeysFromObject (credentialSubject (vc target)) (map fst claimValues))
         ''_sd'' (JArr (map JStr (sort hs)))"
    by (rule createDisclosures_result)
  from disclosure_loop_digests [OF loop] have len: "length hs = length claimValues" by simp
  have sd: "\<exists>sd. map_of (credentialSubject (vc target')) ''_sd'' = Some (JArr (map JStr sd))
             \<and> length sd = length claimValues \<and> sorted sd"
    using len by (intro exI [of _ "sort hs"]) (simp add: subj map_of_defineProperty_same)
  have gone: "name \<notin> fst ` set (credentialSubject (vc target'))"
    if "name \<in> fst ` set claimValues" "name \<noteq> ''_sd''" for name
  proof -
    have "fst ` set (credentialSubject (vc target')) =
            insert ''_sd'' (fst ` set (filter (\<lambda>kv. fst kv \<notin> fst ` set claimValues)
                                         (credentialSubject (vc target))))"
      by (simp add: subj keys_defineProperty removeKeysFromObject_filter)
    with that show ?thesis by force
  qed
  have kept: "map_of (credentialSubject (vc target')) k = map_of (credentialSubject (vc target)) k"
    if "k \<notin> fst ` set claimValues" "k \<noteq> ''_sd''" for k
    using that
    by (simp add: subj map_of_defineProperty_other removeKeysFromObject_filter map_of_filter_keys)
  show ?thesis using sd gone kept by blast
qed


theorem issued_subject_shape_witness:
  "createDisclosures ref_platform ref_rng ''ES256K''
     [(''fname'', JStr ''John''), (''sname'', JStr ''Doe'')]
     \<lparr>vc = \<lparr>credentialSubject =
        [(''fname'', JStr ''John''), (''sname'', JStr ''Doe''), (''nationalId'', JStr ''ajj3i23293f290'')]\<rparr>\<rparr>
   = Inr (\<lparr>vc = \<lparr>credentialSubject =
             [(''nationalId'', JStr ''ajj3i23293f290''), (''_sd'', JArr [JStr ''nD0'', JStr ''ypI''])]\<rparr>\<rparr>,
          [''WyJDekJWZXBfRTZRNHpXSDJpeC13Uk5nIiwiZm5hbWUiLCJKb2huIl0'',
           ''WyJXNENseXU4VU9WNkRxTTN5Rnp4aGhnIiwic25hbWUiLCJEb2UiXQ''])
   \<and> (\<exists>sd. map_of [(''nationalId'', JStr ''ajj3i23293f290''), (''_sd'', JArr [JStr ''nD0'', JStr ''ypI''])] ''_sd''
              = Some (JArr (map JStr sd))
          \<and> length sd = 2 \<and> sorted sd)
   \<and> ''fname'' \<notin> fst ` set [(''nationalId'', JStr ''ajj3i23293f290''), (''_sd'', JArr [JStr ''nD0'', JStr ''ypI''])]
   \<and> ''sname'' \<notin> fst ` set [(''nationalId'', JStr ''ajj3i23293f290''), (''_sd'', JArr [JStr ''nD0'', JStr ''ypI''])]
   \<and> map_of [(''nationalId'', JStr ''ajj3i23293f290''), (''_sd'', JArr [JStr ''nD0'', JStr ''ypI''])] ''nationalId''
       = Some (JStr ''ajj3i23293f290'')"
  using issued_subject_shape [OF issuance_run] issuance_run by (simp add: numeral_2_eq_2)

text \<open>
  C6, as stated, fails where the hidden claim is named \<open>_sd\<close>: the name is removed and then
  written again, so a hidden claim name remains a key of \<open>credentialSubject\<close>.
\<close>

theorem hidden_sd_name_remains:
  "createDisclosures ref_platform ref_rng ''ES256K''
     [(''_sd'', JStr ''x'')]
     \<lparr>vc = \<lparr>credentialSubject = [(''_sd'', JStr ''x'')]\<rparr>\<rparr>
   = Inr (\<lparr>vc = \<lparr>credentialSubject = [(''_sd'', JArr [JStr ''Dmc''])]\<rparr>\<rparr>,
          [''WyJDekJWZXBfRTZRNHpXSDJpeC13Uk5nIiwiX3NkIiwieCJd''])
   \<and> ''_sd'' \<in> fst ` set [(''_sd'', JStr ''x'')]
   \<and> ''_sd'' \<in> fst ` set [(''_sd'', JArr [JStr ''Dmc''])]"
  by code_simp

subsection \<open>The libraries of the reference platform: UTF-8\<close>










subsection \<open>The libraries of the reference platform: JSON\<close>


declare digit_char.simps [simp del]
































subsection \<open>The disclosure codec\<close>



subsection \<open>Presentation\<close>

lemma js_length_ok_index: "js_length v = Inr len \<Longrightarrow> \<exists>x. js_index v i = Inr x"
  by (cases v) auto

lemma parseDisclosure_index: "parseDisclosure P d = Inr v \<Longrightarrow> \<exists>x. js_index v i = Inr x"
  by (auto simp add: parseDisclosure_def split: sum.splits if_splits intro: js_length_ok_index)

lemma array_includes_Nil: "array_includes [] v = False"
  by (cases v) auto

lemma filter_disclosures_none:
  "\<forall>d \<in> set ds. \<exists>v. parseDisclosure P d = Inr v \<Longrightarrow> filter_disclosures P [] ds = Inr []"
proof (induction ds)
  case Nil
  then show ?case by simp
next
  case (Cons d ds)
  then obtain v where v: "parseDisclosure P d = Inr v" by auto
  then obtain x where x: "js_index v 1 = Inr x" using parseDisclosure_index by blast
  from Cons have "filter_disclosures P [] ds = Inr []" by simp
  with v x show ?case by (simp add: array_includes_Nil)
qed

lemma parse_example_disclosure:
  "parseDisclosure ref_platform ''WyJDekJWZXBfRTZRNHpXSDJpeC13Uk5nIiwiZm5hbWUiLCJKb2huIl0''
     = Inr (JArr [JStr ''CzBVep_E6Q4zWH2ix-wRNg'', JStr ''fname'', JStr ''John''])"
  by code_simp

text \<open>
  C4, as stated, fails: with an empty reveal set the result of \<open>discloseClaims\<close> on an SD-JWT
  with one disclosure is the JWS followed by \<open>~\<close>, not the bare JWS.
\<close>

theorem discloseClaims_trailing_separator:
  "discloseClaims ref_platform ''jws~WyJDekJWZXBfRTZRNHpXSDJpeC13Uk5nIiwiZm5hbWUiLCJKb2huIl0'' [] = Inr ''jws~''
   \<and> discloseClaims ref_platform ''jws~WyJDekJWZXBfRTZRNHpXSDJpeC13Uk5nIiwiZm5hbWUiLCJKb2huIl0'' [] \<noteq> Inr ''jws''"
  by code_simp

text \<open>
  C4, as the code has it: an input without \<open>~\<close> fails with \<open>No Disclosures found in
  SD-JWT\<close>, whatever the reveal set; and for an input \<open>jws ~ tail\<close> whose disclosure
  segments all parse, \<open>discloseClaims\<close> with an empty reveal set returns the JWS segment
  followed by one \<open>~\<close>.
\<close>

theorem discloseClaims_empty_reveal:
  assumes "CHR ''~'' \<notin> set jws"
  shows "discloseClaims P jws claims = Inl (Error ''No Disclosures found in SD-JWT'')
       \<and> ((\<forall>d \<in> set (js_split CHR ''~'' tail). \<exists>v. parseDisclosure P d = Inr v)
            \<longrightarrow> discloseClaims P (jws @ ''~'' @ tail) [] = Inr (jws @ ''~''))"
proof (intro conjI impI)
  show "discloseClaims P jws claims = Inl (Error ''No Disclosures found in SD-JWT'')"
    using assms by (simp add: discloseClaims_def js_split_no_sep)
next
  assume ok: "\<forall>d \<in> set (js_split CHR ''~'' tail). \<exists>v. parseDisclosure P d = Inr v"
  have parts: "js_split CHR ''~'' (jws @ ''~'' @ tail) = jws # js_split CHR ''~'' tail"
    using assms by (simp add: js_split_at_first)
  have "js_split CHR ''~'' tail \<noteq> []" by (rule js_split_not_Nil)
  then have "\<not> length (jws # js_split CHR ''~'' tail) \<le> 1"
    by (cases "js_split CHR ''~'' tail") auto
  then show "discloseClaims P (jws @ ''~'' @ tail) [] = Inr (jws @ ''~'')"
    unfolding discloseClaims_def parts Let_def
    by (simp add: filter_disclosures_none [OF ok])
qed

theorem discloseClaims_empty_reveal_witness:
  "CHR ''~'' \<notin> set ''jws''
   \<and> discloseClaims ref_platform ''jws'' [''fname''] = Inl (Error ''No Disclosures found in SD-JWT'')
   \<and> parseDisclosure ref_platform ''WyJDekJWZXBfRTZRNHpXSDJpeC13Uk5nIiwiZm5hbWUiLCJKb2huIl0''
       = Inr (JArr [JStr ''CzBVep_E6Q4zWH2ix-wRNg'', JStr ''fname'', JStr ''John''])
   \<and> discloseClaims ref_platform
        (''jws'' @ ''~'' @ ''WyJDekJWZXBfRTZRNHpXSDJpeC13Uk5nIiwiZm5hbWUiLCJKb2huIl0'') []
       = Inr (''jws'' @ ''~'')"
proof -
  have a: "CHR ''~'' \<notin> set ''jws''" by simp
  have s: "js_split CHR ''~'' ''WyJDekJWZXBfRTZRNHpXSDJpeC13Uk5nIiwiZm5hbWUiLCJKb2huIl0''
             = [''WyJDekJWZXBfRTZRNHpXSDJpeC13Uk5nIiwiZm5hbWUiLCJKb2huIl0'']"
    by (rule js_split_no_sep) simp
  have b: "\<forall>d \<in> set (js_split CHR ''~'' ''WyJDekJWZXBfRTZRNHpXSDJpeC13Uk5nIiwiZm5hbWUiLCJKb2huIl0'').
             \<exists>v. parseDisclosure ref_platform d = Inr v"
    unfolding s using parse_example_disclosure by simp
  show ?thesis
    using a b parse_example_disclosure
      discloseClaims_empty_reveal [OF a, of ref_platform "[''fname'']"
        "''WyJDekJWZXBfRTZRNHpXSDJpeC13Uk5nIiwiZm5hbWUiLCJKb2huIl0''"]
    by blast
qed

section \<open>Properties of the revoke flow\<close>

text \<open>The value returned is \<open>false\<close> on every path, whatever the platform, the credential
  and the value to which the promise settles.\<close>

lemma revokeCredentialSL21_returns_false:
  "returned (revokeCredentialSL21 P credential issuerDID subjectDID) = False"
  by (simp add: revokeCredentialSL21_def Let_def split: VerifiableCredential.splits option.splits)

lemma ref_online_codec:
  "parse ref_online s = parse ref_platform s"
  "parseInt ref_online = ref_parseInt"
  by (simp_all add: parse_def ref_online_def ref_platform_def)

lemma revoke_then_online:
  "revoke_then ref_online ''https://issuer.example/lists/1'' (Some 42) issuerDID subjectDID = Inr True"
proof -
  have get: "axios_get ref_online ''https://issuer.example/lists/1/list.json''
               = Inr \<lparr>subject_id = JStr ''https://issuer.example/lists/1'',
                      subject_type = JStr ''StatusList2021'',
                      subject_purpose = JStr ''revocation'',
                      encodedList = stringify ref_platform new_RevocationList\<rparr>"
    by (simp add: ref_online_def)
  have post: "axios_post ref_online ''https://issuer.example/lists/1/statusList'' doc = Inr ()" for doc
    by (simp add: ref_online_def)
  have prs: "parse ref_online (stringify ref_platform new_RevocationList) = Inr new_RevocationList"
    by (simp add: ref_online_codec ref_parse_stringify)
  obtain L' where rev: "revokeCredential new_RevocationList 42 = Inr L'"
    using revoke_in_range [OF length_new_RevocationList, of 42] by simp
  show ?thesis
    by (simp add: revoke_then_def get prs rev post)
qed

text \<open>
  C1: \<open>revokeCredentialSL21\<close> returns true when the fetch, revoke and republish flow
  succeeds, and false otherwise. The code starts the flow as a promise, keeps it in an unused
  variable and returns \<open>false\<close>: on the reference platform with its network, for a
  credential with entry 42 of the published list, the list is fetched, bit 42 is set, the
  new list is posted, the promise settles to \<open>true\<close>, and the call has returned \<open>false\<close>.
\<close>

theorem revoke_flow_succeeds_returns_false:
  "revokeCredentialSL21 ref_online
     (W3C \<lparr>credentialStatus = Some \<lparr>status_id = ''https://issuer.example/lists/1#42'',
                                     status_type = ''StatusList2021Entry''\<rparr>\<rparr>)
     ''did:key:issuer'' ''did:key:subject''
   = \<lparr>returned = False, promise = Some True\<rparr>"
proof -
  have sp: "js_split CHR ''#'' ''https://issuer.example/lists/1#42''
              = [''https://issuer.example/lists/1'', ''42'']"
    by simp
  have "ref_parseInt ''42'' = Some 42"
    by code_simp
  then have pi: "parseInt ref_online ''42'' = Some 42"
    by (simp add: ref_online_codec)
  show ?thesis
    by (simp add: revokeCredentialSL21_def sp pi revoke_promise_def revoke_then_online)
qed

end
